theory Spec2Isabelle
  imports Complex_Main
begin

section \<open>Data model\<close>

text \<open>
  The application (\<^verbatim>\<open>src/apptest.py\<close>, and its earlier two-axis variant
  \<^verbatim>\<open>src/ShinyApp/apptest.py\<close>) keeps two pandas tables in module-level variables,
  \<^verbatim>\<open>nhanes_biomarkers\<close> and \<^verbatim>\<open>nhanes_labels\<close>, and answers each request of the user
  interface by joining them, filtering the join, and either plotting densities
  (\<^verbatim>\<open>kde_plot\<close>) or printing statistics (\<^verbatim>\<open>summary_stats\<close>).

  A Python \<^verbatim>\<open>str\<close> is a sequence of Unicode code points. The age-group choices of the
  user interface contain an en dash (U+2013), which is no 8-bit character, so a
  \<^verbatim>\<open>str\<close> is modelled as the list of its code points. \<open>py\<close> writes an ASCII literal.
\<close>

type_synonym pystr = "nat list"

definition py :: "string \<Rightarrow> pystr" where
  "py s = map of_char s"

definition en_dash :: nat where
  "en_dash = 8211"

definition hyphen :: nat where
  "hyphen = 45"

text \<open>
  \<^verbatim>\<open>s.replace(old, new)\<close> where \<^verbatim>\<open>old\<close> and \<^verbatim>\<open>new\<close> are both one code point long,
  the only way the source calls it (line 120: the en dash is replaced by a hyphen).
\<close>

definition replace :: "pystr \<Rightarrow> nat \<Rightarrow> nat \<Rightarrow> pystr" where
  "replace s old new = map (\<lambda>c. if c = old then new else c) s"

text \<open>The exceptions that the two files raise or let pass from pandas.\<close>

datatype exn = KeyError pystr | ValueError pystr

text \<open>
  A row of \<^verbatim>\<open>nhanes_biomarkers\<close>: the subject identifier, the gender code, the age in
  years, and one cell per measurement column, \<open>None\<close> where pandas holds NaN (a missing
  measurement). A row of \<^verbatim>\<open>nhanes_labels\<close>: the subject identifier and one 0/1 cell per
  label column. Identifier, gender, age and label cells are integer codes that are
  never missing (section 3 of the specification).
\<close>

record bio_row =
  SEQN :: int
  markers :: "pystr \<Rightarrow> real option"
  RIAGENDR :: int
  RIDAGEYR :: int

record label_row =
  id_client :: int
  labels :: "pystr \<Rightarrow> int"

subsection \<open>Column labels\<close>

text \<open>
  The labels that the columns of a frame can carry: those of the biomarker table (the
  identifier, the gender, the age, and the measurements by name), those of the label
  table (the identifier and the indicators by name), and the three names that the
  functions give to columns of the join. The two tables share no label, and no
  measurement or indicator is called like a column of the other kinds: every label is
  of one kind only.
\<close>

datatype column =
    SEQN_column
  | RIAGENDR_column
  | RIDAGEYR_column
  | Measurement pystr
  | id_client_column
  | Indicator pystr
  | Biomarker_X_column
  | Gender_column
  | Heart_Disease_column

text \<open>
  The select box \<^verbatim>\<open>biomarker_x\<close> offers \<^verbatim>\<open>nhanes_biomarkers.columns[1:]\<close> (line 42): every
  column of the biomarker table but the first, \<^verbatim>\<open>SEQN\<close>. So a choice names the gender
  column, the age column or a measurement. The select box \<^verbatim>\<open>heart_disease_label\<close> offers
  the indicators of the label table (line 47).
\<close>

definition biomarker_column :: "pystr \<Rightarrow> column" where
  "biomarker_column choice =
     (if choice = py ''RIAGENDR'' then RIAGENDR_column
      else if choice = py ''RIDAGEYR'' then RIDAGEYR_column
      else Measurement choice)"

text \<open>The cell of a row of the biomarker table in one of its columns.\<close>

fun cell :: "bio_row \<Rightarrow> column \<Rightarrow> real option" where
  "cell b SEQN_column = Some (real_of_int (SEQN b))"
| "cell b RIAGENDR_column = Some (real_of_int (RIAGENDR b))"
| "cell b RIDAGEYR_column = Some (real_of_int (RIDAGEYR b))"
| "cell b (Measurement name) = markers b name"
| "cell b c = None"

text \<open>
  \<^verbatim>\<open>df.rename(columns={k1: v1, k2: v2, k3: v3})\<close>. In a dictionary display a key that is
  written twice keeps the value written last, so a label is looked up from the end of
  the list of pairs. Every column whose label is a key gets the new label; the other
  columns keep theirs.
\<close>

definition rename :: "(column \<times> column) list \<Rightarrow> column list \<Rightarrow> column list" where
  "rename pairs cols = map (\<lambda>c. case map_of (rev pairs) c of Some new \<Rightarrow> new | None \<Rightarrow> c) cols"

text \<open>
  \<^verbatim>\<open>merged_data[label]\<close>: a \<^verbatim>\<open>KeyError\<close> when no column carries the label, the column when
  one does, and a frame of all of them when several do. The result here is the
  number of these columns.
\<close>

definition column_name :: "column \<Rightarrow> pystr" where
  "column_name c =
     (case c of
        SEQN_column \<Rightarrow> py ''SEQN''
      | RIAGENDR_column \<Rightarrow> py ''RIAGENDR''
      | RIDAGEYR_column \<Rightarrow> py ''RIDAGEYR''
      | Measurement name \<Rightarrow> name
      | id_client_column \<Rightarrow> py ''id_client''
      | Indicator name \<Rightarrow> name
      | Biomarker_X_column \<Rightarrow> py ''Biomarker X''
      | Gender_column \<Rightarrow> py ''Gender''
      | Heart_Disease_column \<Rightarrow> py ''Heart Disease'')"

definition getitem :: "column list \<Rightarrow> column \<Rightarrow> exn + nat" where
  "getitem cols c =
     (if count_list cols c = 0 then Inl (KeyError (column_name c))
      else Inr (count_list cols c))"

text \<open>
  \<^verbatim>\<open>merged_data[merged_data[label] == v]\<close> and its like: the rows are selected when one
  column carries the label. Without such a column the inner access raises the
  \<^verbatim>\<open>KeyError\<close>. With several, the comparison is a frame, and indexing by a frame whose
  labels repeat raises a \<^verbatim>\<open>ValueError\<close> inside pandas.
\<close>

definition select_rows :: "column list \<Rightarrow> column \<Rightarrow> 'a \<Rightarrow> exn + 'a" where
  "select_rows cols c selected =
     (case getitem cols c of
        Inl e \<Rightarrow> Inl e
      | Inr n \<Rightarrow>
          if n = 1 then Inr selected
          else Inl (ValueError (py ''cannot reindex on an axis with duplicate labels'')))"

subsection \<open>The joined rows and the request\<close>

text \<open>
  A row of \<^verbatim>\<open>merged_data\<close>: the identifiers of both tables, the gender, the age, the
  indicator of the selected label, and the cell of the selected biomarker column.
  Which labels the columns of the frame carry after the renaming is kept beside the
  rows (\<open>kde_columns\<close> and \<open>summary_columns\<close> below). \<^verbatim>\<open>summary_stats\<close> projects the
  biomarker table without \<^verbatim>\<open>RIDAGEYR\<close> (line 173) and never reads the age; its rows are
  modelled with the same record.
\<close>

record cohort_row =
  c_SEQN :: int
  Biomarker_X :: "real option"
  Gender :: int
  c_RIDAGEYR :: int
  c_id_client :: int
  Heart_Disease :: int

text \<open>The inputs of one request, as the reactive \<^verbatim>\<open>input\<close> object delivers them.\<close>

record inputs =
  biomarker_x :: pystr
  heart_disease_label :: pystr
  filter_heart_disease :: bool
  gender_filter :: pystr
  age_group_filter :: pystr

text \<open>
  The choices that the select box \<^verbatim>\<open>age_group_filter\<close> offers (lines 58-66): the
  default and six decades, each written with an en dash.
\<close>

definition age_group_choices :: "pystr list" where
  "age_group_choices =
     [py ''All Ages'',
      py ''20'' @ [en_dash] @ py ''30'',
      py ''30'' @ [en_dash] @ py ''40'',
      py ''40'' @ [en_dash] @ py ''50'',
      py ''50'' @ [en_dash] @ py ''60'',
      py ''60'' @ [en_dash] @ py ''70'',
      py ''70'' @ [en_dash] @ py ''80'']"

section \<open>Join and filters\<close>

text \<open>
  \<^verbatim>\<open>pd.merge(left, right, left_on="SEQN", right_on="id_client")\<close>: an inner join, one
  row for every pair of a left and a right row with equal keys, in the order of the
  left rows.
\<close>

definition merge :: "bio_row list \<Rightarrow> label_row list \<Rightarrow> pystr \<Rightarrow> pystr \<Rightarrow> cohort_row list" where
  "merge bio lab selected_biomarker_x selected_label =
     concat (map (\<lambda>b. map (\<lambda>l.
         \<lparr> c_SEQN = SEQN b,
           Biomarker_X = cell b (biomarker_column selected_biomarker_x),
           Gender = RIAGENDR b,
           c_RIDAGEYR = RIDAGEYR b,
           c_id_client = id_client l,
           Heart_Disease = labels l selected_label \<rparr>)
       (filter (\<lambda>l. SEQN b = id_client l) lab)) bio)"

text \<open>
  The labels of \<^verbatim>\<open>merged_data\<close> in \<^verbatim>\<open>kde_plot\<close> after lines 98-116: the projections of
  lines 99 and 100, side by side, renamed. When the selected biomarker is \<^verbatim>\<open>RIAGENDR\<close>
  the dictionary of line 110 has that key twice and renames both gender columns to
  \<^verbatim>\<open>Gender\<close>: no column is called \<^verbatim>\<open>Biomarker X\<close>. When it is \<^verbatim>\<open>RIDAGEYR\<close> both age columns
  become \<^verbatim>\<open>Biomarker X\<close>: no column is called \<^verbatim>\<open>RIDAGEYR\<close>.
\<close>

definition kde_columns :: "pystr \<Rightarrow> pystr \<Rightarrow> column list" where
  "kde_columns selected_biomarker_x selected_label =
     rename
       [(biomarker_column selected_biomarker_x, Biomarker_X_column),
        (Indicator selected_label, Heart_Disease_column),
        (RIAGENDR_column, Gender_column)]
       ([SEQN_column, biomarker_column selected_biomarker_x, RIAGENDR_column, RIDAGEYR_column]
        @ [id_client_column, Indicator selected_label])"

text \<open>The same for \<^verbatim>\<open>summary_stats\<close>, lines 172-181, whose projection has no age column.\<close>

definition summary_columns :: "pystr \<Rightarrow> pystr \<Rightarrow> column list" where
  "summary_columns selected_biomarker_x selected_label =
     rename
       [(biomarker_column selected_biomarker_x, Biomarker_X_column),
        (Indicator selected_label, Heart_Disease_column),
        (RIAGENDR_column, Gender_column)]
       ([SEQN_column, biomarker_column selected_biomarker_x, RIAGENDR_column]
        @ [id_client_column, Indicator selected_label])"

text \<open>The dictionary \<^verbatim>\<open>age_bounds\<close> of lines 121-128.\<close>

definition age_bounds :: "pystr \<rightharpoonup> int \<times> int" where
  "age_bounds = map_of
     [(py ''20-30'', (20, 30)),
      (py ''30-40'', (30, 40)),
      (py ''40-50'', (40, 50)),
      (py ''50-60'', (50, 60)),
      (py ''60-70'', (60, 70)),
      (py ''70-80'', (70, 80))]"

text \<open>
  Lines 118-131 of \<^verbatim>\<open>kde_plot\<close> on the rows of a frame that has its column
  \<^verbatim>\<open>RIDAGEYR\<close>: the en dash of the choice is normalised to a hyphen; unless the choice
  is \<^verbatim>\<open>"All Ages"\<close> the bounds are looked up (a \<^verbatim>\<open>KeyError\<close> for a string that is no
  key) and the rows with \<^verbatim>\<open>low <= RIDAGEYR < high\<close> are kept.
\<close>

definition age_group_step :: "pystr \<Rightarrow> cohort_row list \<Rightarrow> exn + cohort_row list" where
  "age_group_step choice merged_data =
     (let age_filter = replace choice en_dash hyphen in
      if age_filter \<noteq> py ''All Ages'' then
        (case age_bounds age_filter of
           None \<Rightarrow> Inl (KeyError age_filter)
         | Some (low, high) \<Rightarrow>
             Inr (filter (\<lambda>r. low \<le> c_RIDAGEYR r \<and> c_RIDAGEYR r < high) merged_data))
      else Inr merged_data)"

text \<open>
  The same lines on a frame with the labels \<open>cols\<close>: after the bounds were looked up,
  line 131 reads the column \<^verbatim>\<open>RIDAGEYR\<close> to select the rows.
\<close>

definition age_group_filtered ::
  "column list \<Rightarrow> pystr \<Rightarrow> cohort_row list \<Rightarrow> exn + cohort_row list" where
  "age_group_filtered cols choice merged_data =
     (case age_group_step choice merged_data of
        Inl e \<Rightarrow> Inl e
      | Inr kept \<Rightarrow>
          if replace choice en_dash hyphen \<noteq> py ''All Ages''
          then select_rows cols RIDAGEYR_column kept
          else Inr kept)"

text \<open>
  \<^verbatim>\<open>if filter_heart_disease: merged_data = merged_data[merged_data["Heart Disease"] == 1]\<close>
  on the rows. The column \<^verbatim>\<open>Heart Disease\<close> is there once whatever is selected.
\<close>

definition heart_disease_step :: "bool \<Rightarrow> cohort_row list \<Rightarrow> cohort_row list" where
  "heart_disease_step flag merged_data =
     (if flag then filter (\<lambda>r. Heart_Disease r = 1) merged_data else merged_data)"

text \<open>
  The \<^verbatim>\<open>if gender_filter == "Male": ... elif gender_filter == "Female": ...\<close> chain on
  the rows of a frame that has one column \<^verbatim>\<open>Gender\<close>.
\<close>

definition gender_step :: "pystr \<Rightarrow> cohort_row list \<Rightarrow> cohort_row list" where
  "gender_step choice merged_data =
     (if choice = py ''Male'' then filter (\<lambda>r. Gender r = 1) merged_data
      else if choice = py ''Female'' then filter (\<lambda>r. Gender r = 2) merged_data
      else merged_data)"

text \<open>
  The same chain on a frame with the labels \<open>cols\<close>: either branch reads the column
  \<^verbatim>\<open>Gender\<close> to select the rows; the choice \<^verbatim>\<open>"All"\<close> reads nothing.
\<close>

definition gender_filtered ::
  "column list \<Rightarrow> pystr \<Rightarrow> cohort_row list \<Rightarrow> exn + cohort_row list" where
  "gender_filtered cols choice merged_data =
     (if choice = py ''Male'' \<or> choice = py ''Female''
      then select_rows cols Gender_column (gender_step choice merged_data)
      else Inr merged_data)"

section \<open>The density plot\<close>

text \<open>
  What \<^verbatim>\<open>kde_plot\<close> draws: either a text in an empty figure, or one call of
  \<^verbatim>\<open>sns.kdeplot\<close> per disease status, recorded as the legend label and the data
  \<^verbatim>\<open>subset["Biomarker X"]\<close> handed to it: the cells of every column of that label
  (one column, unless the age column was selected and renamed twice), missing cells
  included, as in the source. What seaborn draws from them is not part of the model.
\<close>

datatype figure = Message pystr | Density_plot "(pystr \<times> real option list list) list"

definition kde_plot :: "bio_row list \<Rightarrow> label_row list \<Rightarrow> inputs \<Rightarrow> exn + figure" where
  "kde_plot nhanes_biomarkers nhanes_labels inp =
     (let cols = kde_columns (biomarker_x inp) (heart_disease_label inp);
          merged_data = merge nhanes_biomarkers nhanes_labels
            (biomarker_x inp) (heart_disease_label inp) in
      case age_group_filtered cols (age_group_filter inp) merged_data of
        Inl e \<Rightarrow> Inl e
      | Inr merged_data \<Rightarrow>
          if merged_data = [] then
            Inr (Message (py ''No data available for selected age group.''))
          else
            (let merged_data = heart_disease_step (filter_heart_disease inp) merged_data in
             case gender_filtered cols (gender_filter inp) merged_data of
               Inl e \<Rightarrow> Inl e
             | Inr merged_data \<Rightarrow>
                 (case getitem cols Biomarker_X_column of
                    Inl e \<Rightarrow> Inl e
                  | Inr n \<Rightarrow>
                      Inr (Density_plot
                        (map (\<lambda>(condition, label).
                                (label, replicate n (map Biomarker_X
                                   (filter (\<lambda>r. Heart_Disease r = condition) merged_data))))
                             [(1, py ''Disease''), (0, py ''No Disease'')])))))"

section \<open>Floating-point results\<close>

text \<open>
  The statistics are float64 values of numpy and pandas: a real number, an infinity or
  NaN. What float64 arithmetic makes of given numbers depends on rounding, on overflow
  and on the order in which a library adds up a series, so it is not fixed here but
  taken as a parameter \<open>fp\<close> of everything that computes:
  \<^item> \<open>rnd r\<close> is the float64 result of one operation (sum, product, quotient, square
    root) whose exact result is \<open>r\<close>: the number it is rounded to, or an infinity when
    it overflows;
  \<^item> \<open>series_mean\<close> and \<open>series_var\<close> are the mean and the sample variance
    (\<^verbatim>\<open>ddof=1\<close>) that pandas computes of a series of at least one and at least two
    values; \<open>array_mean\<close> and \<open>array_var\<close> are those that numpy computes of an array
    inside scipy.
  Fixed are only the cases that do not depend on rounding: how NaN and the infinities
  pass through an operation, that a division by zero yields an infinity or NaN and
  does not raise (the operands are numpy scalars), and that the sample variance of
  fewer than two values is NaN.
\<close>

datatype npfloat = Fin real | PInf | NInf | NaN

record float64 =
  rnd :: "real \<Rightarrow> npfloat"
  series_mean :: "real list \<Rightarrow> npfloat"
  series_var :: "real list \<Rightarrow> npfloat"
  array_mean :: "real list \<Rightarrow> npfloat"
  array_var :: "real list \<Rightarrow> npfloat"

fun fl_add :: "float64 \<Rightarrow> npfloat \<Rightarrow> npfloat \<Rightarrow> npfloat" where
  "fl_add fp NaN y = NaN"
| "fl_add fp x NaN = NaN"
| "fl_add fp (Fin a) (Fin b) = rnd fp (a + b)"
| "fl_add fp PInf NInf = NaN"
| "fl_add fp NInf PInf = NaN"
| "fl_add fp PInf y = PInf"
| "fl_add fp x PInf = PInf"
| "fl_add fp NInf y = NInf"
| "fl_add fp x NInf = NInf"

fun fl_neg :: "npfloat \<Rightarrow> npfloat" where
  "fl_neg (Fin a) = Fin (- a)"
| "fl_neg PInf = NInf"
| "fl_neg NInf = PInf"
| "fl_neg NaN = NaN"

definition fl_sub :: "float64 \<Rightarrow> npfloat \<Rightarrow> npfloat \<Rightarrow> npfloat" where
  "fl_sub fp x y = fl_add fp x (fl_neg y)"

text \<open>The sign of a value: \<open>None\<close> for NaN, which has none.\<close>

fun fl_sign :: "npfloat \<Rightarrow> int option" where
  "fl_sign (Fin a) = Some (if a > 0 then 1 else if a < 0 then - 1 else 0)"
| "fl_sign PInf = Some 1"
| "fl_sign NInf = Some (- 1)"
| "fl_sign NaN = None"

fun fl_mul :: "float64 \<Rightarrow> npfloat \<Rightarrow> npfloat \<Rightarrow> npfloat" where
  "fl_mul fp (Fin a) (Fin b) = rnd fp (a * b)"
| "fl_mul fp x y =
     (case (fl_sign x, fl_sign y) of
        (Some s, Some t) \<Rightarrow>
          if s * t = 0 then NaN else if s * t > 0 then PInf else NInf
      | _ \<Rightarrow> NaN)"

text \<open>
  Division. A zero divisor is the positive zero here: the divisors of the source are
  counts and square roots.
\<close>

fun fl_div :: "float64 \<Rightarrow> npfloat \<Rightarrow> npfloat \<Rightarrow> npfloat" where
  "fl_div fp NaN y = NaN"
| "fl_div fp x NaN = NaN"
| "fl_div fp (Fin a) (Fin b) =
     (if b \<noteq> 0 then rnd fp (a / b)
      else if a > 0 then PInf else if a < 0 then NInf else NaN)"
| "fl_div fp (Fin a) y = Fin 0"
| "fl_div fp x (Fin b) =
     (if (x = PInf) = (b \<ge> 0) then PInf else NInf)"
| "fl_div fp x y = NaN"

fun fl_sqrt :: "float64 \<Rightarrow> npfloat \<Rightarrow> npfloat" where
  "fl_sqrt fp (Fin a) = (if a < 0 then NaN else rnd fp (sqrt a))"
| "fl_sqrt fp PInf = PInf"
| "fl_sqrt fp x = NaN"

text \<open>\<^verbatim>\<open>x > 0\<close>: false for NaN, as every comparison with NaN is.\<close>

fun fl_pos :: "npfloat \<Rightarrow> bool" where
  "fl_pos (Fin a) = (a > 0)"
| "fl_pos PInf = True"
| "fl_pos x = False"


text \<open>A count as a float64 value.\<close>

definition fl_of_nat :: "nat \<Rightarrow> npfloat" where
  "fl_of_nat n = Fin (real n)"

text \<open>An integer that may be negative, such as \<^verbatim>\<open>n1 + n2 - 2\<close>.\<close>

definition fl_of_int :: "int \<Rightarrow> npfloat" where
  "fl_of_int n = Fin (real_of_int n)"

subsection \<open>Reductions over a series of values\<close>

text \<open>
  The reductions of pandas over a series without missing values (\<^verbatim>\<open>np.mean\<close> and
  \<^verbatim>\<open>np.var\<close> of a series are its own methods): the mean, the sample variance with
  \<^verbatim>\<open>ddof=1\<close> (NaN when there are not at least two values), the standard deviation as
  its square root, the median, the minimum and the maximum (NaN for an empty series).
\<close>

definition mean :: "float64 \<Rightarrow> real list \<Rightarrow> npfloat" where
  "mean fp x = (if x = [] then NaN else series_mean fp x)"

definition var_ddof1 :: "float64 \<Rightarrow> real list \<Rightarrow> npfloat" where
  "var_ddof1 fp x = (if length x \<le> 1 then NaN else series_var fp x)"

definition std :: "float64 \<Rightarrow> real list \<Rightarrow> npfloat" where
  "std fp x = fl_sqrt fp (var_ddof1 fp x)"

definition median :: "float64 \<Rightarrow> real list \<Rightarrow> npfloat" where
  "median fp x =
     (let s = sort x; n = length s in
      if n = 0 then NaN
      else if odd n then Fin (s ! (n div 2))
      else fl_div fp (fl_add fp (Fin (s ! (n div 2 - 1))) (Fin (s ! (n div 2)))) (Fin 2))"

definition minimum :: "real list \<Rightarrow> npfloat" where
  "minimum x = (if x = [] then NaN else Fin (Min (set x)))"

definition maximum :: "real list \<Rightarrow> npfloat" where
  "maximum x = (if x = [] then NaN else Fin (Max (set x)))"

text \<open>The same two reductions of numpy over an array, as scipy calls them.\<close>

definition array_mean_of :: "float64 \<Rightarrow> real list \<Rightarrow> npfloat" where
  "array_mean_of fp x = (if x = [] then NaN else array_mean fp x)"

definition array_var_ddof1 :: "float64 \<Rightarrow> real list \<Rightarrow> npfloat" where
  "array_var_ddof1 fp x = (if length x \<le> 1 then NaN else array_var fp x)"

section \<open>The summary statistics\<close>

text \<open>
  Line 190: \<^verbatim>\<open>merged_data["Heart Disease"].map({1: "Disease", 0: "No Disease"})\<close>;
  a value that is no key of the dictionary becomes NaN, here \<open>None\<close>.
\<close>

definition disease_status :: "int \<Rightarrow> pystr option" where
  "disease_status v =
     (if v = 1 then Some (py ''Disease'')
      else if v = 0 then Some (py ''No Disease'')
      else None)"

text \<open>\<^verbatim>\<open>Series.dropna()\<close>: the values that are not missing, in order.\<close>

primrec dropna :: "real option list \<Rightarrow> real list" where
  "dropna [] = []"
| "dropna (c # cs) = (case c of None \<Rightarrow> dropna cs | Some v \<Rightarrow> v # dropna cs)"

text \<open>
  Line 197, on the rows of a frame that has one column \<^verbatim>\<open>Biomarker X\<close>:
  \<^verbatim>\<open>merged_data[merged_data["Heart Disease"] == group]["Biomarker X"].dropna()\<close>
\<close>

definition group_data :: "cohort_row list \<Rightarrow> pystr \<Rightarrow> real list" where
  "group_data merged_data group_name =
     dropna (map Biomarker_X
       (filter (\<lambda>r. disease_status (Heart_Disease r) = Some group_name) merged_data))"

text \<open>The dictionary \<^verbatim>\<open>stats_dict\<close> of lines 200-207, one field per key.\<close>

record stats_dict =
  Count :: nat
  Mean :: npfloat
  Median :: npfloat
  Std_Dev :: npfloat
  Min_value :: npfloat
  Max_value :: npfloat

definition make_stats_dict :: "float64 \<Rightarrow> real list \<Rightarrow> stats_dict" where
  "make_stats_dict fp x =
     \<lparr> Count = length x,
       Mean = mean fp x,
       Median = median fp x,
       Std_Dev = std fp x,
       Min_value = minimum x,
       Max_value = maximum x \<rparr>"

text \<open>
  The loop of lines 196-211 over the two group names. Its state is the dictionary
  \<^verbatim>\<open>group_stats\<close> (group name to the group's values) and the text written so far,
  kept as the list of the group sections: a group without values is skipped by
  \<^verbatim>\<open>continue\<close> and enters neither.
\<close>

definition group_iteration ::
  "float64 \<Rightarrow> cohort_row list \<Rightarrow> pystr
     \<Rightarrow> (pystr \<rightharpoonup> real list) \<times> (pystr \<times> stats_dict) list
     \<Rightarrow> (pystr \<rightharpoonup> real list) \<times> (pystr \<times> stats_dict) list" where
  "group_iteration fp merged_data group_name st =
     (let x = group_data merged_data group_name in
      if x = [] then st
      else ((fst st)(group_name \<mapsto> x), snd st @ [(group_name, make_stats_dict fp x)]))"

definition grouped_stats ::
  "float64 \<Rightarrow> cohort_row list \<Rightarrow> (pystr \<rightharpoonup> real list) \<times> (pystr \<times> stats_dict) list" where
  "grouped_stats fp merged_data =
     fold (group_iteration fp merged_data) [py ''Disease'', py ''No Disease''] (Map.empty, [])"

text \<open>
  \<^verbatim>\<open>stats.ttest_ind(x1, x2, equal_var=False)\<close> is a function of scipy. Its statistic is
  that of Welch's test as section 4.5 of the specification describes it: the
  difference of the means over \<^verbatim>\<open>sqrt(v1/n1 + v2/n2)\<close> with the sample variances
  \<^verbatim>\<open>v1\<close>, \<^verbatim>\<open>v2\<close> (\<^verbatim>\<open>ddof=1\<close>), computed with numpy's non-raising division. The
  p-value that scipy derives from the statistic through Student's distribution is not
  represented: the text of \<^verbatim>\<open>summary_stats\<close> is kept with the statistic in its place.
\<close>

definition ttest_ind :: "float64 \<Rightarrow> real list \<Rightarrow> real list \<Rightarrow> npfloat" where
  "ttest_ind fp x1 x2 =
     (let vn1 = fl_div fp (array_var_ddof1 fp x1) (fl_of_nat (length x1));
          vn2 = fl_div fp (array_var_ddof1 fp x2) (fl_of_nat (length x2));
          denom = fl_sqrt fp (fl_add fp vn1 vn2)
      in fl_div fp (fl_sub fp (array_mean_of fp x1) (array_mean_of fp x2)) denom)"

text \<open>Lines 222-224.\<close>

definition pooled_std :: "float64 \<Rightarrow> real list \<Rightarrow> real list \<Rightarrow> npfloat" where
  "pooled_std fp x1 x2 =
     (let n1 = int (length x1); n2 = int (length x2);
          s1 = var_ddof1 fp x1; s2 = var_ddof1 fp x2
      in fl_sqrt fp (fl_div fp
           (fl_add fp (fl_mul fp (fl_of_int (n1 - 1)) s1) (fl_mul fp (fl_of_int (n2 - 1)) s2))
           (fl_of_int (n1 + n2 - 2))))"

text \<open>Line 225.\<close>

definition cohen_d :: "float64 \<Rightarrow> real list \<Rightarrow> real list \<Rightarrow> npfloat" where
  "cohen_d fp x1 x2 =
     (if fl_pos (pooled_std fp x1 x2)
      then fl_div fp (fl_sub fp (mean fp x1) (mean fp x2)) (pooled_std fp x1 x2)
      else NaN)"

text \<open>
  The last section of the text, lines 214-231: the test results when both groups are
  keys of \<^verbatim>\<open>group_stats\<close>, the sentence
  \<^verbatim>\<open>Insufficient data to perform statistical comparison.\<close> otherwise.
\<close>

datatype test_section = Statistical_Test npfloat npfloat | Insufficient_data

definition statistical_test :: "float64 \<Rightarrow> (pystr \<rightharpoonup> real list) \<Rightarrow> test_section" where
  "statistical_test fp group_stats =
     (case (group_stats (py ''Disease''), group_stats (py ''No Disease'')) of
        (Some x1, Some x2) \<Rightarrow> Statistical_Test (ttest_ind fp x1 x2) (cohen_d fp x1 x2)
      | _ \<Rightarrow> Insufficient_data)"

text \<open>
  What \<^verbatim>\<open>summary_stats\<close> returns: the sentence
  \<^verbatim>\<open>No data available for the selected filters (age group, gender, disease).\<close>
  of line 233, or \<^verbatim>\<open>output_str\<close>, kept as its group sections and its last section.
\<close>

datatype summary = No_data | Output "(pystr \<times> stats_dict) list" test_section

text \<open>
  Lines 172-188 on the rows: \<^verbatim>\<open>merged_data\<close> as \<^verbatim>\<open>summary_stats\<close> prepares it. The join
  is followed by the disease filter and the gender filter;
  \<^verbatim>\<open>input.age_group_filter()\<close> is not read.
\<close>

definition summary_cohort :: "bio_row list \<Rightarrow> label_row list \<Rightarrow> inputs \<Rightarrow> cohort_row list" where
  "summary_cohort nhanes_biomarkers nhanes_labels inp =
     (let merged_data = merge nhanes_biomarkers nhanes_labels
            (biomarker_x inp) (heart_disease_label inp);
          merged_data = heart_disease_step (filter_heart_disease inp) merged_data
      in gender_step (gender_filter inp) merged_data)"

text \<open>
  \<^verbatim>\<open>summary_stats\<close>. The gender filter reads the column \<^verbatim>\<open>Gender\<close>, and the first turn
  of the loop reads the column \<^verbatim>\<open>Biomarker X\<close> at line 197, whether the frame has rows
  or not; the test of line 232 comes last.
\<close>

definition summary_stats ::
  "float64 \<Rightarrow> bio_row list \<Rightarrow> label_row list \<Rightarrow> inputs \<Rightarrow> exn + summary" where
  "summary_stats fp nhanes_biomarkers nhanes_labels inp =
     (let cols = summary_columns (biomarker_x inp) (heart_disease_label inp);
          merged_data = merge nhanes_biomarkers nhanes_labels
            (biomarker_x inp) (heart_disease_label inp);
          merged_data = heart_disease_step (filter_heart_disease inp) merged_data in
      case gender_filtered cols (gender_filter inp) merged_data of
        Inl e \<Rightarrow> Inl e
      | Inr merged_data \<Rightarrow>
          (case getitem cols Biomarker_X_column of
             Inl e \<Rightarrow> Inl e
           | Inr n \<Rightarrow>
               (let st = grouped_stats fp merged_data;
                    test = statistical_test fp (fst st)
                in Inr (if merged_data = [] then No_data else Output (snd st) test))))"

section \<open>The two-axis plot of the earlier variant\<close>

text \<open>
  \<^verbatim>\<open>regression_plot\<close> of \<^verbatim>\<open>src/ShinyApp/apptest.py\<close>: two biomarkers are selected, and
  the joined and filtered rows are handed to \<^verbatim>\<open>sns.lmplot\<close>. The check of lines 79-80
  comes before everything else; the rows after it are those for two different
  measurements.
\<close>

record xy_inputs =
  xy_biomarker_x :: pystr
  xy_biomarker_y :: pystr
  xy_heart_disease_label :: pystr
  xy_filter_heart_disease :: bool
  xy_gender_filter :: pystr

record xy_row =
  xy_SEQN :: int
  xy_Biomarker_X :: "real option"
  xy_Biomarker_Y :: "real option"
  xy_Gender :: int
  xy_id_client :: int
  xy_Heart_Disease :: int

definition regression_plot :: "bio_row list \<Rightarrow> label_row list \<Rightarrow> xy_inputs \<Rightarrow> exn + xy_row list" where
  "regression_plot nhanes_biomarkers nhanes_labels inp =
     (if xy_biomarker_x inp = xy_biomarker_y inp then
        Inl (ValueError (py ''Please select different biomarkers for X and Y axes.''))
      else
        (let merged_data = concat (map (\<lambda>b. map (\<lambda>l.
                 \<lparr> xy_SEQN = SEQN b,
                   xy_Biomarker_X = markers b (xy_biomarker_x inp),
                   xy_Biomarker_Y = markers b (xy_biomarker_y inp),
                   xy_Gender = RIAGENDR b,
                   xy_id_client = id_client l,
                   xy_Heart_Disease = labels l (xy_heart_disease_label inp) \<rparr>)
               (filter (\<lambda>l. SEQN b = id_client l) nhanes_labels)) nhanes_biomarkers);
             merged_data = (if xy_filter_heart_disease inp
                            then filter (\<lambda>r. xy_Heart_Disease r = 1) merged_data
                            else merged_data);
             merged_data = (if xy_gender_filter inp = py ''Male''
                            then filter (\<lambda>r. xy_Gender r = 1) merged_data
                            else if xy_gender_filter inp = py ''Female''
                            then filter (\<lambda>r. xy_Gender r = 2) merged_data
                            else merged_data)
         in Inr merged_data))"

section \<open>Example tables and requests\<close>

text \<open>
  Rows whose measurement and label cells do not depend on the selected column, and a
  request for a fixed measurement and label.
\<close>

definition bio_subject :: "int \<Rightarrow> real option \<Rightarrow> int \<Rightarrow> int \<Rightarrow> bio_row" where
  "bio_subject i v g a = \<lparr> SEQN = i, markers = (\<lambda>c. v), RIAGENDR = g, RIDAGEYR = a \<rparr>"

definition label_subject :: "int \<Rightarrow> int \<Rightarrow> label_row" where
  "label_subject i d = \<lparr> id_client = i, labels = (\<lambda>c. d) \<rparr>"

definition request :: "bool \<Rightarrow> pystr \<Rightarrow> pystr \<Rightarrow> inputs" where
  "request f g a =
     \<lparr> biomarker_x = py ''Glucose'', heart_disease_label = py ''CoronaryHeartDisease'',
       filter_heart_disease = f, gender_filter = g, age_group_filter = a \<rparr>"

definition joined :: "int \<Rightarrow> real option \<Rightarrow> int \<Rightarrow> int \<Rightarrow> int \<Rightarrow> cohort_row" where
  "joined i v g a d =
     \<lparr> c_SEQN = i, Biomarker_X = v, Gender = g, c_RIDAGEYR = a, c_id_client = i,
       Heart_Disease = d \<rparr>"

text \<open>
  Scenario A of the specification: the subjects 1, 2, 3 with the values 10, 20 and a
  missing one, and the indicators 1, 0, 1. The first two are men of 45 and 52, the third
  a woman of 61.
\<close>

definition scenario_bio :: "bio_row list" where
  "scenario_bio =
     [bio_subject 1 (Some 10) 1 45, bio_subject 2 (Some 20) 1 52, bio_subject 3 None 2 61]"

definition scenario_labels :: "label_row list" where
  "scenario_labels = [label_subject 1 1, label_subject 2 0, label_subject 3 1]"

text \<open>A label table that shares only the subjects 2 and 3 with \<open>scenario_bio\<close>.\<close>

definition partial_labels :: "label_row list" where
  "partial_labels = [label_subject 2 0, label_subject 3 1, label_subject 4 1]"

text \<open>Two subjects in each group: the values 1, 3 with the disease and 5, 7 without.\<close>

definition paired_bio :: "bio_row list" where
  "paired_bio =
     [bio_subject 1 (Some 1) 1 45, bio_subject 2 (Some 3) 1 52,
      bio_subject 3 (Some 5) 2 61, bio_subject 4 (Some 7) 2 33]"

definition paired_labels :: "label_row list" where
  "paired_labels = [label_subject 1 1, label_subject 2 1, label_subject 3 0, label_subject 4 0]"

text \<open>The same subjects with no variance within either group: 5, 5 and 3, 3.\<close>

definition constant_bio :: "bio_row list" where
  "constant_bio =
     [bio_subject 1 (Some 5) 1 45, bio_subject 2 (Some 5) 1 52,
      bio_subject 3 (Some 3) 2 61, bio_subject 4 (Some 3) 2 33]"

text \<open>
  Three subjects in each group, with the values 0, 2, 4 and 10, 12, 14: every mean,
  variance and quotient of lines 222-225 is an integer.
\<close>

definition triple_bio :: "bio_row list" where
  "triple_bio =
     [bio_subject 1 (Some 0) 1 45, bio_subject 2 (Some 2) 1 52, bio_subject 3 (Some 4) 1 38,
      bio_subject 4 (Some 10) 2 61, bio_subject 5 (Some 12) 2 33, bio_subject 6 (Some 14) 2 27]"

definition triple_labels :: "label_row list" where
  "triple_labels =
     [label_subject 1 1, label_subject 2 1, label_subject 3 1,
      label_subject 4 0, label_subject 5 0, label_subject 6 0]"

text \<open>A request for the gender column itself as the biomarker.\<close>

definition gender_request :: inputs where
  "gender_request =
     \<lparr> biomarker_x = py ''RIAGENDR'', heart_disease_label = py ''CoronaryHeartDisease'',
       filter_heart_disease = False, gender_filter = py ''All'',
       age_group_filter = py ''All Ages'' \<rparr>"

text \<open>
  An arithmetic without rounding. float64 agrees with it wherever every intermediate
  result is a float64 number, as in the examples, whose values are small integers.
\<close>

definition exact :: float64 where
  "exact =
     \<lparr> rnd = Fin,
       series_mean = (\<lambda>x. Fin (sum_list x / real (length x))),
       series_var = (\<lambda>x. Fin (sum_list (map (\<lambda>v. (v - sum_list x / real (length x)) ^ 2) x)
                                / real (length x - 1))),
       array_mean = (\<lambda>x. Fin (sum_list x / real (length x))),
       array_var = (\<lambda>x. Fin (sum_list (map (\<lambda>v. (v - sum_list x / real (length x)) ^ 2) x)
                               / real (length x - 1))) \<rparr>"

text \<open>A request of the two-axis variant that selects one biomarker twice.\<close>

definition same_axes :: xy_inputs where
  "same_axes =
     \<lparr> xy_biomarker_x = py ''Glucose'', xy_biomarker_y = py ''Glucose'',
       xy_heart_disease_label = py ''CoronaryHeartDisease'',
       xy_filter_heart_disease = False, xy_gender_filter = py ''All'' \<rparr>"

section \<open>Evaluation of the examples\<close>

lemmas example_defs =
  bio_subject_def label_subject_def request_def joined_def scenario_bio_def
  scenario_labels_def partial_labels_def paired_bio_def paired_labels_def
  constant_bio_def triple_bio_def triple_labels_def gender_request_def
  same_axes_def age_group_choices_def

lemmas string_defs = py_def en_dash_def hyphen_def replace_def

lemmas column_defs =
  biomarker_column_def rename_def column_name_def getitem_def select_rows_def
  kde_columns_def summary_columns_def

lemmas filter_defs =
  merge_def age_group_step_def age_bounds_def heart_disease_step_def gender_step_def
  summary_cohort_def age_group_filtered_def gender_filtered_def

lemmas stats_defs =
  summary_stats_def grouped_stats_def group_iteration_def group_data_def
  disease_status_def statistical_test_def make_stats_dict_def mean_def median_def
  std_def var_ddof1_def minimum_def maximum_def ttest_ind_def cohen_d_def
  pooled_std_def array_mean_of_def array_var_ddof1_def fl_of_nat_def fl_of_int_def
  fl_sub_def exact_def Let_def

section \<open>The labels of the joined frame\<close>

lemma structural_choices_differ: "py ''RIAGENDR'' \<noteq> py ''RIDAGEYR''"
  by (simp add: py_def)

lemma summary_columns_count:
  "count_list (summary_columns sel label) Biomarker_X_column
     = (if sel = py ''RIAGENDR'' then 0 else 1)"
  "count_list (summary_columns sel label) Gender_column
     = (if sel = py ''RIAGENDR'' then 2 else 1)"
  using structural_choices_differ
  by (simp_all add: summary_columns_def rename_def biomarker_column_def)

lemma kde_columns_count:
  "count_list (kde_columns sel label) Biomarker_X_column
     = (if sel = py ''RIAGENDR'' then 0 else if sel = py ''RIDAGEYR'' then 2 else 1)"
  "count_list (kde_columns sel label) Gender_column
     = (if sel = py ''RIAGENDR'' then 2 else 1)"
  "count_list (kde_columns sel label) RIDAGEYR_column
     = (if sel = py ''RIDAGEYR'' then 0 else 1)"
  using structural_choices_differ
  by (simp_all add: kde_columns_def rename_def biomarker_column_def)

section \<open>The age filter\<close>

lemma age_choice_bounds:
  assumes "(choice, (low, high)) \<in> set (zip (tl age_group_choices)
             [(20, 30), (30, 40), (40, 50), (50, 60), (60, 70), (70, 80)])"
  shows "replace choice en_dash hyphen \<noteq> py ''All Ages''"
    and "age_bounds (replace choice en_dash hyphen) = Some (low, high)"
  using assms by (auto simp: age_group_choices_def string_defs age_bounds_def)

lemma all_ages_normalised: "replace (py ''All Ages'') en_dash hyphen = py ''All Ages''"
  by (simp add: string_defs)

lemma age_group_step_all_ages: "age_group_step (py ''All Ages'') merged_data = Inr merged_data"
  by (simp add: age_group_step_def all_ages_normalised)

lemma age_group_step_choices:
  assumes "choice \<in> set age_group_choices"
  shows "\<exists>aged. age_group_step choice merged_data = Inr aged"
proof (cases "choice = py ''All Ages''")
  case True
  then show ?thesis by (simp add: age_group_step_all_ages)
next
  case False
  then have "choice \<in> set (tl age_group_choices)"
    using assms by (simp add: age_group_choices_def)
  then obtain low high :: int where "(choice, (low, high)) \<in> set (zip (tl age_group_choices)
      [(20, 30), (30, 40), (40, 50), (50, 60), (60, 70), (70, 80)])"
    by (auto simp: age_group_choices_def)
  then show ?thesis
    using age_choice_bounds [of choice low high] by (simp add: age_group_step_def)
qed

text \<open>
  C2. For each of the six decades that the select box offers, the age filter keeps
  exactly the rows with \<open>low \<le> RIDAGEYR < high\<close>, so every surviving record lies in the
  half-open interval, the last decade 70-80 included; the choice "All Ages" returns the
  rows unchanged.
\<close>

theorem age_group_step_half_open:
  "((choice, (low, high)) \<in> set (zip (tl age_group_choices)
        [(20, 30), (30, 40), (40, 50), (50, 60), (60, 70), (70, 80)]) \<longrightarrow>
      age_group_step choice merged_data =
        Inr (filter (\<lambda>r. low \<le> c_RIDAGEYR r \<and> c_RIDAGEYR r < high) merged_data)
      \<and> (\<forall>kept r. age_group_step choice merged_data = Inr kept \<and> r \<in> set kept \<longrightarrow>
             low \<le> c_RIDAGEYR r \<and> c_RIDAGEYR r < high))
   \<and> age_group_step (hd age_group_choices) merged_data = Inr merged_data"
proof -
  have all: "age_group_step (hd age_group_choices) merged_data = Inr merged_data"
    by (simp add: age_group_choices_def age_group_step_all_ages)
  have bin: "age_group_step choice merged_data =
        Inr (filter (\<lambda>r. low \<le> c_RIDAGEYR r \<and> c_RIDAGEYR r < high) merged_data)"
    if "(choice, (low, high)) \<in> set (zip (tl age_group_choices)
        [(20, 30), (30, 40), (40, 50), (50, 60), (60, 70), (70, 80)])"
    using age_choice_bounds [OF that] by (simp add: age_group_step_def)
  show ?thesis using all bin by auto
qed

text \<open>
  The boundary of Scenario B: a subject aged 30 survives the bin 30-40 and not the bin
  20-30, one aged 29 the reverse, one aged 40 neither.
\<close>

theorem age_group_step_half_open_witness:
  "age_group_step (py ''30'' @ [en_dash] @ py ''40'')
       [joined 1 (Some 1) 1 30 1, joined 2 (Some 1) 1 29 1, joined 3 (Some 1) 1 40 1]
     = Inr [joined 1 (Some 1) 1 30 1]
   \<and> age_group_step (py ''20'' @ [en_dash] @ py ''30'')
       [joined 1 (Some 1) 1 30 1, joined 2 (Some 1) 1 29 1, joined 3 (Some 1) 1 40 1]
     = Inr [joined 2 (Some 1) 1 29 1]
   \<and> age_group_step (py ''All Ages'')
       [joined 1 (Some 1) 1 30 1, joined 2 (Some 1) 1 29 1, joined 3 (Some 1) 1 40 1]
     = Inr [joined 1 (Some 1) 1 30 1, joined 2 (Some 1) 1 29 1, joined 3 (Some 1) 1 40 1]"
  using age_group_step_half_open [of "py ''30'' @ [en_dash] @ py ''40''" 30 40
          "[joined 1 (Some 1) 1 30 1, joined 2 (Some 1) 1 29 1, joined 3 (Some 1) 1 40 1]"]
        age_group_step_half_open [of "py ''20'' @ [en_dash] @ py ''30''" 20 30
          "[joined 1 (Some 1) 1 30 1, joined 2 (Some 1) 1 29 1, joined 3 (Some 1) 1 40 1]"]
  by (simp add: age_group_choices_def joined_def)

section \<open>The inner join\<close>

lemma length_filter_key:
  "distinct (map f xs) \<Longrightarrow>
     length (filter (\<lambda>x. k = f x) xs) = (if k \<in> f ` set xs then 1 else 0)"
  by (induction xs) auto

lemma merge_keys:
  assumes "distinct (map id_client lab)"
  shows "map c_SEQN (merge bio lab x y)
           = filter (\<lambda>k. k \<in> id_client ` set lab) (map SEQN bio)"
proof (induction bio)
  case Nil
  show ?case by (simp add: merge_def)
next
  case (Cons b bio)
  have "map c_SEQN (map (\<lambda>l. \<lparr> c_SEQN = SEQN b, Biomarker_X = cell b (biomarker_column x),
           Gender = RIAGENDR b, c_RIDAGEYR = RIDAGEYR b, c_id_client = id_client l,
           Heart_Disease = labels l y \<rparr>)
         (filter (\<lambda>l. SEQN b = id_client l) lab))
        = replicate (length (filter (\<lambda>l. SEQN b = id_client l) lab)) (SEQN b)"
    by (simp add: map_replicate_const comp_def)
  also have "\<dots> = (if SEQN b \<in> id_client ` set lab then [SEQN b] else [])"
    using length_filter_key [OF assms, of "SEQN b"] by simp
  finally show ?case using Cons.IH by (simp add: merge_def)
qed

text \<open>
  C5. When the subject identifiers are unique within each table, the join has at most
  as many rows as the smaller table, and the identifier of every joined row occurs in
  the biomarker table and in the label table.
\<close>

theorem merge_inner_join:
  assumes "distinct (map SEQN bio)" and "distinct (map id_client lab)"
  shows "length (merge bio lab x y) \<le> min (length bio) (length lab)
         \<and> (\<forall>r \<in> set (merge bio lab x y).
               c_SEQN r \<in> SEQN ` set bio \<and> c_SEQN r \<in> id_client ` set lab)"
proof -
  let ?ks = "filter (\<lambda>k. k \<in> id_client ` set lab) (map SEQN bio)"
  have keys: "map c_SEQN (merge bio lab x y) = ?ks"
    by (rule merge_keys [OF assms(2)])
  have len: "length (merge bio lab x y) = length ?ks"
    using arg_cong [OF keys, of length] by simp
  have "length ?ks \<le> length bio"
    using length_filter_le [of _ "map SEQN bio"] by simp
  moreover have "length ?ks \<le> length lab"
  proof -
    have "distinct ?ks" using assms(1) by simp
    then have "length ?ks = card (set ?ks)" by (rule distinct_card [symmetric])
    also have "\<dots> \<le> card (id_client ` set lab)"
      by (rule card_mono) auto
    also have "\<dots> \<le> card (set lab)" by (rule card_image_le) simp
    also have "\<dots> \<le> length lab" by (rule card_length)
    finally show ?thesis .
  qed
  moreover have "c_SEQN r \<in> SEQN ` set bio \<and> c_SEQN r \<in> id_client ` set lab"
    if "r \<in> set (merge bio lab x y)" for r
  proof -
    have "c_SEQN r \<in> set (map c_SEQN (merge bio lab x y))" using that by simp
    then show ?thesis unfolding keys by auto
  qed
  ultimately show ?thesis using len by simp
qed

text \<open>
  Three subjects against a label table that knows two of them and a fourth: the join
  has the two common subjects.
\<close>

theorem merge_inner_join_witness:
  "distinct (map SEQN scenario_bio) \<and> distinct (map id_client partial_labels)
   \<and> length (merge scenario_bio partial_labels (py ''Glucose'') (py ''CoronaryHeartDisease''))
       \<le> min (length scenario_bio) (length partial_labels)
   \<and> map c_SEQN (merge scenario_bio partial_labels (py ''Glucose'') (py ''CoronaryHeartDisease''))
       = [2, 3]"
proof -
  have d1: "distinct (map SEQN scenario_bio)" by (simp add: example_defs)
  have d2: "distinct (map id_client partial_labels)" by (simp add: example_defs)
  have "map c_SEQN (merge scenario_bio partial_labels (py ''Glucose'')
          (py ''CoronaryHeartDisease'')) = [2, 3]"
    by (simp add: example_defs merge_def)
  then show ?thesis
    using d1 d2 merge_inner_join [OF d1 d2, of "py ''Glucose''" "py ''CoronaryHeartDisease''"]
    by simp
qed

section \<open>The density plot on an empty cohort\<close>

lemma age_group_filtered_eq:
  "sel \<noteq> py ''RIDAGEYR'' \<Longrightarrow>
     age_group_filtered (kde_columns sel label) choice merged_data
       = age_group_step choice merged_data"
  by (simp add: age_group_filtered_def select_rows_def getitem_def kde_columns_count
        split: sum.splits)

lemma age_group_filtered_all_ages:
  "age_group_filtered cols (py ''All Ages'') merged_data = Inr merged_data"
  by (simp add: age_group_filtered_def age_group_step_all_ages all_ages_normalised)

lemma kde_plot_after_age_step:
  assumes "age_group_filtered (kde_columns (biomarker_x inp) (heart_disease_label inp))
             (age_group_filter inp)
             (merge bio lab (biomarker_x inp) (heart_disease_label inp)) = Inr aged"
  shows "kde_plot bio lab inp =
     (if aged = [] then Inr (Message (py ''No data available for selected age group.''))
      else
        (case gender_filtered (kde_columns (biomarker_x inp) (heart_disease_label inp))
                (gender_filter inp) (heart_disease_step (filter_heart_disease inp) aged) of
           Inl e \<Rightarrow> Inl e
         | Inr merged_data \<Rightarrow>
             (case getitem (kde_columns (biomarker_x inp) (heart_disease_label inp))
                     Biomarker_X_column of
                Inl e \<Rightarrow> Inl e
              | Inr n \<Rightarrow>
                  Inr (Density_plot
                    (map (\<lambda>(condition, label).
                            (label, replicate n (map Biomarker_X
                               (filter (\<lambda>r. Heart_Disease r = condition) merged_data))))
                         [(1, py ''Disease''), (0, py ''No Disease'')])))))"
  using assms by (simp add: kde_plot_def Let_def)

text \<open>
  C10. In \<^verbatim>\<open>kde_plot\<close> the emptiness check follows the age step at once. Whenever the
  cohort is empty there, the figure is the text "No data available for selected age
  group.", whatever the disease and gender filters are set to, so neither filter nor
  the density estimation contributes; this includes the choice "All Ages" on a join
  without rows. A cohort that is not empty after the age step is never answered by a
  text. The age step is that of lines 118-131 on the rows, unless the age column
  itself was selected as the biomarker.
\<close>

theorem kde_plot_empty_after_age_step:
  "(age_group_filtered (kde_columns (biomarker_x inp) (heart_disease_label inp))
        (age_group_filter inp)
        (merge bio lab (biomarker_x inp) (heart_disease_label inp)) = Inr [] \<longrightarrow>
      kde_plot bio lab (inp\<lparr>filter_heart_disease := f, gender_filter := g\<rparr>)
        = Inr (Message (py ''No data available for selected age group.''))
      \<and> kde_plot bio lab inp
        = Inr (Message (py ''No data available for selected age group.'')))
   \<and> (age_group_filter inp = py ''All Ages''
        \<and> merge bio lab (biomarker_x inp) (heart_disease_label inp) = [] \<longrightarrow>
      kde_plot bio lab inp = Inr (Message (py ''No data available for selected age group.'')))
   \<and> (\<forall>aged. age_group_filtered (kde_columns (biomarker_x inp) (heart_disease_label inp))
        (age_group_filter inp)
        (merge bio lab (biomarker_x inp) (heart_disease_label inp)) = Inr aged
        \<and> aged \<noteq> [] \<longrightarrow>
      (\<forall>m. kde_plot bio lab inp \<noteq> Inr (Message m)))
   \<and> (biomarker_x inp \<noteq> py ''RIDAGEYR'' \<longrightarrow>
      age_group_filtered (kde_columns (biomarker_x inp) (heart_disease_label inp))
        (age_group_filter inp)
        (merge bio lab (biomarker_x inp) (heart_disease_label inp))
      = age_group_step (age_group_filter inp)
          (merge bio lab (biomarker_x inp) (heart_disease_label inp)))"
proof (intro conjI impI allI)
  assume e: "age_group_filtered (kde_columns (biomarker_x inp) (heart_disease_label inp))
        (age_group_filter inp)
        (merge bio lab (biomarker_x inp) (heart_disease_label inp)) = Inr []"
  show "kde_plot bio lab inp = Inr (Message (py ''No data available for selected age group.''))"
    using kde_plot_after_age_step [OF e] by simp
  show "kde_plot bio lab (inp\<lparr>filter_heart_disease := f, gender_filter := g\<rparr>)
        = Inr (Message (py ''No data available for selected age group.''))"
    using e by (simp add: kde_plot_def Let_def)
next
  assume "age_group_filter inp = py ''All Ages''
        \<and> merge bio lab (biomarker_x inp) (heart_disease_label inp) = []"
  then show "kde_plot bio lab inp
        = Inr (Message (py ''No data available for selected age group.''))"
    by (simp add: kde_plot_def Let_def age_group_filtered_all_ages)
next
  fix aged m
  assume a: "age_group_filtered (kde_columns (biomarker_x inp) (heart_disease_label inp))
        (age_group_filter inp)
        (merge bio lab (biomarker_x inp) (heart_disease_label inp)) = Inr aged \<and> aged \<noteq> []"
  then have "kde_plot bio lab inp =
      (case gender_filtered (kde_columns (biomarker_x inp) (heart_disease_label inp))
              (gender_filter inp) (heart_disease_step (filter_heart_disease inp) aged) of
         Inl e \<Rightarrow> Inl e
       | Inr merged_data \<Rightarrow>
           (case getitem (kde_columns (biomarker_x inp) (heart_disease_label inp))
                   Biomarker_X_column of
              Inl e \<Rightarrow> Inl e
            | Inr n \<Rightarrow>
                Inr (Density_plot
                  (map (\<lambda>(condition, label).
                          (label, replicate n (map Biomarker_X
                             (filter (\<lambda>r. Heart_Disease r = condition) merged_data))))
                       [(1, py ''Disease''), (0, py ''No Disease'')]))))"
    using kde_plot_after_age_step [of inp bio lab aged] by simp
  then show "kde_plot bio lab inp \<noteq> Inr (Message m)"
    by (simp split: sum.splits)
next
  assume "biomarker_x inp \<noteq> py ''RIDAGEYR''"
  then show "age_group_filtered (kde_columns (biomarker_x inp) (heart_disease_label inp))
        (age_group_filter inp)
        (merge bio lab (biomarker_x inp) (heart_disease_label inp))
      = age_group_step (age_group_filter inp)
          (merge bio lab (biomarker_x inp) (heart_disease_label inp))"
    by (rule age_group_filtered_eq)
qed

text \<open>
  Nobody of Scenario A is between 20 and 30: the text is drawn, also with both other
  filters switched on. Empty tables under "All Ages" give the same text. Under "All
  Ages" Scenario A itself is plotted.
\<close>

theorem kde_plot_empty_after_age_step_witness:
  "age_group_step (py ''20'' @ [en_dash] @ py ''30'')
       (merge scenario_bio scenario_labels (py ''Glucose'') (py ''CoronaryHeartDisease''))
     = Inr []
   \<and> kde_plot scenario_bio scenario_labels
       (request True (py ''Female'') (py ''20'' @ [en_dash] @ py ''30''))
     = Inr (Message (py ''No data available for selected age group.''))
   \<and> kde_plot [] [] (request False (py ''All'') (py ''All Ages''))
     = Inr (Message (py ''No data available for selected age group.''))
   \<and> kde_plot scenario_bio scenario_labels (request False (py ''All'') (py ''All Ages''))
     = Inr (Density_plot
         [(py ''Disease'', [[Some 10, None]]), (py ''No Disease'', [[Some 20]])])"
proof -
  let ?young = "request False (py ''All'') (py ''20'' @ [en_dash] @ py ''30'')"
  let ?all = "request False (py ''All'') (py ''All Ages'')"
  have e: "age_group_filtered (kde_columns (biomarker_x ?young) (heart_disease_label ?young))
             (age_group_filter ?young)
             (merge scenario_bio scenario_labels (biomarker_x ?young)
                (heart_disease_label ?young)) = Inr []"
    by (simp add: example_defs string_defs column_defs filter_defs)
  have s: "age_group_step (py ''20'' @ [en_dash] @ py ''30'')
       (merge scenario_bio scenario_labels (py ''Glucose'') (py ''CoronaryHeartDisease''))
     = Inr []"
    by (simp add: example_defs string_defs column_defs filter_defs)
  have m: "merge [] [] (biomarker_x ?all) (heart_disease_label ?all) = []"
    by (simp add: merge_def)
  have p: "kde_plot scenario_bio scenario_labels ?all
     = Inr (Density_plot
         [(py ''Disease'', [[Some 10, None]]), (py ''No Disease'', [[Some 20]])])"
    by (simp add: kde_plot_def example_defs string_defs column_defs filter_defs)
  show ?thesis
    using e s m p
      kde_plot_empty_after_age_step
        [where inp = ?young and bio = scenario_bio and lab = scenario_labels
           and f = True and g = "py ''Female''"]
      kde_plot_empty_after_age_step
        [where inp = ?all and bio = "[]" and lab = "[]" and f = False and g = "py ''All''"]
    by (simp add: request_def)
qed

section \<open>The two-axis plot\<close>

text \<open>
  C8, as the code has it. When one biomarker is selected for both axes,
  \<^verbatim>\<open>regression_plot\<close> raises a \<^verbatim>\<open>ValueError\<close> before it looks at either table: the
  outcome is the same for all tables, so no join and no partial computation takes
  place. The error leaves the function as a raised exception (\<open>Inl\<close>); nothing is
  returned.
\<close>

theorem regression_plot_same_biomarker:
  assumes "xy_biomarker_x inp = xy_biomarker_y inp"
  shows "regression_plot bio lab inp
           = Inl (ValueError (py ''Please select different biomarkers for X and Y axes.''))"
  using assms by (simp add: regression_plot_def)

theorem regression_plot_same_biomarker_witness:
  "xy_biomarker_x same_axes = xy_biomarker_y same_axes
   \<and> regression_plot paired_bio paired_labels same_axes
       = Inl (ValueError (py ''Please select different biomarkers for X and Y axes.''))"
proof -
  have h: "xy_biomarker_x same_axes = xy_biomarker_y same_axes"
    by (simp add: same_axes_def)
  show ?thesis
    using h regression_plot_same_biomarker [OF h, of paired_bio paired_labels] by simp
qed

text \<open>
  The claim as the specification words it asks for a typed result that is returned
  rather than thrown. On Scenario A the request with the same biomarker on both axes
  ends in the raised exception.
\<close>

theorem regression_plot_raises_counterexample:
  "isl (regression_plot scenario_bio scenario_labels same_axes)
   \<and> projl (regression_plot scenario_bio scenario_labels same_axes)
       = ValueError (py ''Please select different biomarkers for X and Y axes.'')"
  by (simp add: regression_plot_def same_axes_def)

section \<open>The groups of the summary\<close>

lemma group_names_differ: "py ''Disease'' \<noteq> py ''No Disease''"
  by (simp add: py_def)

lemma disease_status_Disease: "(disease_status v = Some (py ''Disease'')) = (v = 1)"
  by (simp add: disease_status_def py_def)

lemma disease_status_No_Disease: "(disease_status v = Some (py ''No Disease'')) = (v = 0)"
  by (simp add: disease_status_def py_def)

lemma group_data_Disease:
  "group_data m (py ''Disease'')
     = dropna (map Biomarker_X (filter (\<lambda>r. Heart_Disease r = 1) m))"
  by (simp add: group_data_def disease_status_Disease)

lemma group_data_No_Disease:
  "group_data m (py ''No Disease'')
     = dropna (map Biomarker_X (filter (\<lambda>r. Heart_Disease r = 0) m))"
  by (simp add: group_data_def disease_status_No_Disease)

lemma length_dropna:
  "length (dropna (map f rows)) = length (filter (\<lambda>r. f r \<noteq> None) rows)"
  by (induction rows) (auto split: option.splits)

lemma length_dropna_filter:
  "length (dropna (map f (filter P rows))) = length (filter (\<lambda>r. P r \<and> f r \<noteq> None) rows)"
  by (simp add: length_dropna conj_commute)

lemma fst_grouped_stats_Disease:
  "fst (grouped_stats fp m) (py ''Disease'') =
     (if group_data m (py ''Disease'') = [] then None
      else Some (group_data m (py ''Disease'')))"
  using group_names_differ by (simp add: grouped_stats_def group_iteration_def Let_def)

lemma fst_grouped_stats_No_Disease:
  "fst (grouped_stats fp m) (py ''No Disease'') =
     (if group_data m (py ''No Disease'') = [] then None
      else Some (group_data m (py ''No Disease'')))"
  by (simp add: grouped_stats_def group_iteration_def Let_def)

lemma snd_grouped_stats:
  "snd (grouped_stats fp m) =
     (if group_data m (py ''Disease'') = [] then []
      else [(py ''Disease'', make_stats_dict fp (group_data m (py ''Disease'')))])
     @ (if group_data m (py ''No Disease'') = [] then []
        else [(py ''No Disease'', make_stats_dict fp (group_data m (py ''No Disease'')))])"
  by (simp add: grouped_stats_def group_iteration_def Let_def)

lemma statistical_test_eq:
  "statistical_test fp (fst (grouped_stats fp m)) =
     (if group_data m (py ''Disease'') \<noteq> [] \<and> group_data m (py ''No Disease'') \<noteq> []
      then Statistical_Test
             (ttest_ind fp (group_data m (py ''Disease'')) (group_data m (py ''No Disease'')))
             (cohen_d fp (group_data m (py ''Disease'')) (group_data m (py ''No Disease'')))
      else Insufficient_data)"
  by (simp add: statistical_test_def fst_grouped_stats_Disease fst_grouped_stats_No_Disease)

text \<open>
  \<^verbatim>\<open>summary_stats\<close> raises exactly when the gender column itself is selected as the
  biomarker: the frame then has two columns \<^verbatim>\<open>Gender\<close> and no column \<^verbatim>\<open>Biomarker X\<close>.
\<close>

lemma summary_stats_eq:
  assumes "biomarker_x inp \<noteq> py ''RIAGENDR''"
  shows "summary_stats fp bio lab inp =
     Inr (if summary_cohort bio lab inp = [] then No_data
          else Output (snd (grouped_stats fp (summary_cohort bio lab inp)))
                 (statistical_test fp (fst (grouped_stats fp (summary_cohort bio lab inp)))))"
  using assms
  by (simp add: summary_stats_def summary_cohort_def gender_filtered_def select_rows_def
        getitem_def summary_columns_count gender_step_def Let_def)

lemma summary_stats_raises:
  assumes "biomarker_x inp = py ''RIAGENDR''"
  shows "isl (summary_stats fp bio lab inp)"
  using assms
  by (simp add: summary_stats_def gender_filtered_def select_rows_def
        getitem_def summary_columns_count Let_def)

lemma summary_stats_returns:
  assumes "summary_stats fp bio lab inp = Inr s"
  shows "biomarker_x inp \<noteq> py ''RIAGENDR''"
  using assms summary_stats_raises [of inp fp bio lab] by auto

text \<open>
  C6. In every text that \<^verbatim>\<open>summary_stats\<close> returns, a group (Disease for the indicator
  1, No Disease for 0) whose rows of the filtered cohort hold \<open>n > 0\<close> biomarker values
  that are not missing has one section, computed from exactly these values after the
  missing ones are dropped, and its count is \<open>n\<close>; a group with \<open>n = 0\<close> has no section.
  No other section occurs.
\<close>

theorem group_counts:
  assumes "summary_stats fp bio lab inp = Inr (Output groups test)"
    and "(g, code) \<in> {(py ''Disease'', 1), (py ''No Disease'', 0)}"
  shows "(let cohort = summary_cohort bio lab inp;
              xs = dropna (map Biomarker_X (filter (\<lambda>r. Heart_Disease r = code) cohort));
              n = length (filter (\<lambda>r. Heart_Disease r = code \<and> Biomarker_X r \<noteq> None) cohort)
          in length xs = n
             \<and> map_of groups g = (if n = 0 then None else Some (make_stats_dict fp xs))
             \<and> Count (make_stats_dict fp xs) = n
             \<and> distinct (map fst groups)
             \<and> set (map fst groups) \<subseteq> {py ''Disease'', py ''No Disease''})"
proof -
  let ?c = "summary_cohort bio lab inp"
  have sel: "biomarker_x inp \<noteq> py ''RIAGENDR''"
    by (rule summary_stats_returns [OF assms(1)])
  have groups: "groups = snd (grouped_stats fp ?c)"
    using assms(1) by (simp add: summary_stats_eq [OF sel] split: if_splits)
  have len: "length (dropna (map Biomarker_X (filter (\<lambda>r. Heart_Disease r = code) ?c)))
      = length (filter (\<lambda>r. Heart_Disease r = code \<and> Biomarker_X r \<noteq> None) ?c)"
    by (rule length_dropna_filter)
  have names: "distinct (map fst groups)"
      "set (map fst groups) \<subseteq> {py ''Disease'', py ''No Disease''}"
    using group_names_differ by (auto simp: groups snd_grouped_stats)
  have "map_of groups g =
      (if dropna (map Biomarker_X (filter (\<lambda>r. Heart_Disease r = code) ?c)) = [] then None
       else Some (make_stats_dict fp
         (dropna (map Biomarker_X (filter (\<lambda>r. Heart_Disease r = code) ?c)))))"
    using assms(2) group_names_differ
    by (auto simp: groups snd_grouped_stats group_data_Disease group_data_No_Disease)
  then show ?thesis
    using len names by (simp add: Let_def make_stats_dict_def flip: length_0_conv)
qed

text \<open>
  Scenario A without filters: the missing value of subject 3 is dropped, so each group
  counts one value. With the disease filter on, the group No Disease has no value and
  no section.
\<close>

theorem group_counts_witness:
  "summary_stats exact scenario_bio scenario_labels
       (request False (py ''All'') (py ''All Ages''))
     = Inr (Output
        [(py ''Disease'', \<lparr> Count = 1, Mean = Fin 10, Median = Fin 10, Std_Dev = NaN,
                             Min_value = Fin 10, Max_value = Fin 10 \<rparr>),
         (py ''No Disease'', \<lparr> Count = 1, Mean = Fin 20, Median = Fin 20, Std_Dev = NaN,
                                Min_value = Fin 20, Max_value = Fin 20 \<rparr>)]
        (Statistical_Test NaN NaN))
   \<and> length (filter (\<lambda>r. Heart_Disease r = 1 \<and> Biomarker_X r \<noteq> None)
        (summary_cohort scenario_bio scenario_labels
           (request False (py ''All'') (py ''All Ages'')))) = 1
   \<and> summary_stats exact scenario_bio scenario_labels
       (request True (py ''All'') (py ''All Ages''))
     = Inr (Output
        [(py ''Disease'', \<lparr> Count = 1, Mean = Fin 10, Median = Fin 10, Std_Dev = NaN,
                             Min_value = Fin 10, Max_value = Fin 10 \<rparr>)]
        Insufficient_data)
   \<and> length (filter (\<lambda>r. Heart_Disease r = 0 \<and> Biomarker_X r \<noteq> None)
        (summary_cohort scenario_bio scenario_labels
           (request True (py ''All'') (py ''All Ages'')))) = 0"
proof -
  have a: "summary_stats exact scenario_bio scenario_labels
             (request False (py ''All'') (py ''All Ages''))
     = Inr (Output
        [(py ''Disease'', \<lparr> Count = 1, Mean = Fin 10, Median = Fin 10, Std_Dev = NaN,
                             Min_value = Fin 10, Max_value = Fin 10 \<rparr>),
         (py ''No Disease'', \<lparr> Count = 1, Mean = Fin 20, Median = Fin 20, Std_Dev = NaN,
                                Min_value = Fin 20, Max_value = Fin 20 \<rparr>)]
        (Statistical_Test NaN NaN))"
    by (simp add: example_defs string_defs column_defs filter_defs stats_defs)
  have b: "summary_stats exact scenario_bio scenario_labels
             (request True (py ''All'') (py ''All Ages''))
     = Inr (Output
        [(py ''Disease'', \<lparr> Count = 1, Mean = Fin 10, Median = Fin 10, Std_Dev = NaN,
                             Min_value = Fin 10, Max_value = Fin 10 \<rparr>)]
        Insufficient_data)"
    by (simp add: example_defs string_defs column_defs filter_defs stats_defs)
  have i: "(py ''Disease'', 1) \<in> {(py ''Disease'', 1::int), (py ''No Disease'', 0)}"
    by simp
  have j: "(py ''No Disease'', 0) \<in> {(py ''Disease'', 1::int), (py ''No Disease'', 0)}"
    by simp
  have c1: "length (filter (\<lambda>r. Heart_Disease r = 1 \<and> Biomarker_X r \<noteq> None)
        (summary_cohort scenario_bio scenario_labels
           (request False (py ''All'') (py ''All Ages'')))) = 1"
    by (simp add: example_defs string_defs column_defs filter_defs)
  have c0: "length (filter (\<lambda>r. Heart_Disease r = 0 \<and> Biomarker_X r \<noteq> None)
        (summary_cohort scenario_bio scenario_labels
           (request True (py ''All'') (py ''All Ages'')))) = 0"
    by (simp add: example_defs string_defs column_defs filter_defs)
  show ?thesis
    using a b c1 c0 group_counts [OF a i] group_counts [OF b j]
    by (simp add: Let_def)
qed

section \<open>The hypothesis test\<close>

text \<open>
  C4. The last section of the text holds the Welch statistic and Cohen's d exactly when
  the filtered cohort has at least one biomarker value that is not missing with the
  indicator 1 and at least one with the indicator 0; both are then computed from these
  two groups. Otherwise the section is the sentence about insufficient data, and
  neither \<open>ttest_ind\<close> nor \<open>cohen_d\<close> is evaluated. \<^verbatim>\<open>summary_stats\<close> returns this text
  unless the filtered cohort has no row at all, when line 233 replaces it, and unless
  the gender column itself is the selected biomarker, when it raises.
\<close>

theorem statistical_test_iff_both_groups:
  "(let cohort = summary_cohort bio lab inp;
        n1 = length (filter (\<lambda>r. Heart_Disease r = 1 \<and> Biomarker_X r \<noteq> None) cohort);
        n0 = length (filter (\<lambda>r. Heart_Disease r = 0 \<and> Biomarker_X r \<noteq> None) cohort);
        x1 = dropna (map Biomarker_X (filter (\<lambda>r. Heart_Disease r = 1) cohort));
        x2 = dropna (map Biomarker_X (filter (\<lambda>r. Heart_Disease r = 0) cohort));
        test = statistical_test fp (fst (grouped_stats fp cohort))
    in length x1 = n1 \<and> length x2 = n0
       \<and> test = (if 1 \<le> n1 \<and> 1 \<le> n0
                 then Statistical_Test (ttest_ind fp x1 x2) (cohen_d fp x1 x2)
                 else Insufficient_data)
       \<and> (biomarker_x inp \<noteq> py ''RIAGENDR'' \<longrightarrow>
            summary_stats fp bio lab inp
              = Inr (if cohort = [] then No_data
                     else Output (snd (grouped_stats fp cohort)) test))
       \<and> (biomarker_x inp = py ''RIAGENDR'' \<longrightarrow> isl (summary_stats fp bio lab inp)))"
proof -
  let ?c = "summary_cohort bio lab inp"
  let ?x1 = "dropna (map Biomarker_X (filter (\<lambda>r. Heart_Disease r = 1) ?c))"
  let ?x2 = "dropna (map Biomarker_X (filter (\<lambda>r. Heart_Disease r = 0) ?c))"
  have l1: "length ?x1
      = length (filter (\<lambda>r. Heart_Disease r = 1 \<and> Biomarker_X r \<noteq> None) ?c)"
    by (rule length_dropna_filter)
  have l0: "length ?x2
      = length (filter (\<lambda>r. Heart_Disease r = 0 \<and> Biomarker_X r \<noteq> None) ?c)"
    by (rule length_dropna_filter)
  have ne: "(?x1 \<noteq> [] \<and> ?x2 \<noteq> []) = (1 \<le> length ?x1 \<and> 1 \<le> length ?x2)"
    by (simp add: Suc_le_eq)
  have "statistical_test fp (fst (grouped_stats fp ?c))
      = (if 1 \<le> length ?x1 \<and> 1 \<le> length ?x2
         then Statistical_Test (ttest_ind fp ?x1 ?x2) (cohen_d fp ?x1 ?x2)
         else Insufficient_data)"
    unfolding statistical_test_eq group_data_Disease group_data_No_Disease ne ..
  then show ?thesis
    unfolding Let_def l1 [symmetric] l0 [symmetric]
    by (simp add: summary_stats_eq summary_stats_raises)
qed

text \<open>
  Scenario A: without filters both groups have a value and the test section is
  computed; with the disease filter the group No Disease is empty and the sentence
  about insufficient data stands in its place.
\<close>

theorem statistical_test_iff_both_groups_witness:
  "summary_stats exact scenario_bio scenario_labels
       (request False (py ''Male'') (py ''All Ages''))
     = Inr (Output
        [(py ''Disease'', \<lparr> Count = 1, Mean = Fin 10, Median = Fin 10, Std_Dev = NaN,
                             Min_value = Fin 10, Max_value = Fin 10 \<rparr>),
         (py ''No Disease'', \<lparr> Count = 1, Mean = Fin 20, Median = Fin 20, Std_Dev = NaN,
                                Min_value = Fin 20, Max_value = Fin 20 \<rparr>)]
        (Statistical_Test (ttest_ind exact [10] [20]) (cohen_d exact [10] [20])))
   \<and> summary_stats exact scenario_bio scenario_labels
       (request True (py ''Male'') (py ''All Ages''))
     = Inr (Output
        [(py ''Disease'', \<lparr> Count = 1, Mean = Fin 10, Median = Fin 10, Std_Dev = NaN,
                             Min_value = Fin 10, Max_value = Fin 10 \<rparr>)]
        Insufficient_data)"
proof -
  have c1: "summary_cohort scenario_bio scenario_labels
              (request False (py ''Male'') (py ''All Ages''))
            = [joined 1 (Some 10) 1 45 1, joined 2 (Some 20) 1 52 0]"
    by (simp add: example_defs string_defs column_defs filter_defs)
  have c2: "summary_cohort scenario_bio scenario_labels
              (request True (py ''Male'') (py ''All Ages''))
            = [joined 1 (Some 10) 1 45 1]"
    by (simp add: example_defs string_defs column_defs filter_defs)
  have g1: "snd (grouped_stats exact [joined 1 (Some 10) 1 45 1, joined 2 (Some 20) 1 52 0])
     = [(py ''Disease'', \<lparr> Count = 1, Mean = Fin 10, Median = Fin 10, Std_Dev = NaN,
                           Min_value = Fin 10, Max_value = Fin 10 \<rparr>),
        (py ''No Disease'', \<lparr> Count = 1, Mean = Fin 20, Median = Fin 20, Std_Dev = NaN,
                              Min_value = Fin 20, Max_value = Fin 20 \<rparr>)]"
    by (simp add: example_defs string_defs stats_defs)
  have g2: "snd (grouped_stats exact [joined 1 (Some 10) 1 45 1])
     = [(py ''Disease'', \<lparr> Count = 1, Mean = Fin 10, Median = Fin 10, Std_Dev = NaN,
                           Min_value = Fin 10, Max_value = Fin 10 \<rparr>)]"
    by (simp add: example_defs string_defs stats_defs)
  have s: "biomarker_x (request False (py ''Male'') (py ''All Ages'')) \<noteq> py ''RIAGENDR''"
      "biomarker_x (request True (py ''Male'') (py ''All Ages'')) \<noteq> py ''RIAGENDR''"
    by (simp_all add: request_def py_def)
  show ?thesis
    using g1 g2 s
          statistical_test_iff_both_groups
            [of scenario_bio scenario_labels "request False (py ''Male'') (py ''All Ages'')"
                exact]
          statistical_test_iff_both_groups
            [of scenario_bio scenario_labels "request True (py ''Male'') (py ''All Ages'')"
                exact]
    by (simp add: Let_def c1 c2 joined_def)
qed

section \<open>Cohen's d and groups of one value\<close>

lemma fl_add_NaN_right [simp]: "fl_add fp x NaN = NaN"
  by (cases x) simp_all

lemma fl_div_NaN_right [simp]: "fl_div fp x NaN = NaN"
  by (cases x) simp_all

lemma fl_mul_NaN_right [simp]: "fl_mul fp x NaN = NaN"
  by (cases x) simp_all

lemma fl_mul_NaN_left [simp]: "fl_mul fp NaN y = NaN"
  by (cases y) simp_all

lemma var_ddof1_small: "length x \<le> 1 \<Longrightarrow> var_ddof1 fp x = NaN"
  by (simp add: var_ddof1_def)

lemma array_var_ddof1_small: "length x \<le> 1 \<Longrightarrow> array_var_ddof1 fp x = NaN"
  by (simp add: array_var_ddof1_def)

lemma pooled_std_small:
  "length x1 \<le> 1 \<or> length x2 \<le> 1 \<Longrightarrow> pooled_std fp x1 x2 = NaN"
  by (auto simp: pooled_std_def var_ddof1_small fl_of_int_def Let_def)

lemma ttest_ind_small:
  "length x1 \<le> 1 \<or> length x2 \<le> 1 \<Longrightarrow> ttest_ind fp x1 x2 = NaN"
  by (auto simp: ttest_ind_def array_var_ddof1_small Let_def)

lemma group_data_Nil: "group_data [] g = []"
  by (simp add: group_data_def)

text \<open>
  C9. When both groups have a value that is not missing and one of them has exactly
  one, the sample variance of the single value is NaN, and NaN passes through the
  product, the sum, the division (also the one by \<open>n1 + n2 - 2 = 0\<close>, when both groups
  have one value) and the square root, so the pooled standard deviation, Cohen's d and
  the test statistic are all NaN, and \<^verbatim>\<open>summary_stats\<close> returns its text with them. (It
  raises only when the gender column itself is the selected biomarker, whatever the
  groups are.)
\<close>

theorem single_value_group_nan:
  "(let cohort = summary_cohort bio lab inp;
        x1 = group_data cohort (py ''Disease'');
        x2 = group_data cohort (py ''No Disease'')
    in x1 \<noteq> [] \<and> x2 \<noteq> [] \<and> (length x1 = 1 \<or> length x2 = 1) \<longrightarrow>
         pooled_std fp x1 x2 = NaN \<and> cohen_d fp x1 x2 = NaN \<and> ttest_ind fp x1 x2 = NaN
         \<and> (biomarker_x inp \<noteq> py ''RIAGENDR'' \<longrightarrow>
              summary_stats fp bio lab inp
                = Inr (Output (snd (grouped_stats fp cohort)) (Statistical_Test NaN NaN))))"
proof -
  let ?c = "summary_cohort bio lab inp"
  let ?x1 = "group_data ?c (py ''Disease'')"
  let ?x2 = "group_data ?c (py ''No Disease'')"
  have "pooled_std fp ?x1 ?x2 = NaN \<and> cohen_d fp ?x1 ?x2 = NaN \<and> ttest_ind fp ?x1 ?x2 = NaN
         \<and> (biomarker_x inp \<noteq> py ''RIAGENDR'' \<longrightarrow>
              summary_stats fp bio lab inp
                = Inr (Output (snd (grouped_stats fp ?c)) (Statistical_Test NaN NaN)))"
    if ne: "?x1 \<noteq> []" "?x2 \<noteq> []" and one: "length ?x1 = 1 \<or> length ?x2 = 1"
  proof -
    have small: "length ?x1 \<le> 1 \<or> length ?x2 \<le> 1" using one by auto
    have p: "pooled_std fp ?x1 ?x2 = NaN" by (rule pooled_std_small [OF small])
    have t: "ttest_ind fp ?x1 ?x2 = NaN" by (rule ttest_ind_small [OF small])
    have d: "cohen_d fp ?x1 ?x2 = NaN" by (simp add: cohen_d_def p)
    have c: "?c \<noteq> []" using ne(1) group_data_Nil by auto
    show ?thesis using p t d c ne
      by (simp add: summary_stats_eq statistical_test_eq)
  qed
  then show ?thesis unfolding Let_def by blast
qed

text \<open>
  Scenario A without filters: one value in each group, so \<open>n1 + n2 - 2 = 0\<close>.
\<close>

theorem single_value_group_nan_witness:
  "group_data (summary_cohort scenario_bio scenario_labels
       (request False (py ''All'') (py ''All Ages''))) (py ''Disease'') = [10]
   \<and> group_data (summary_cohort scenario_bio scenario_labels
       (request False (py ''All'') (py ''All Ages''))) (py ''No Disease'') = [20]
   \<and> pooled_std exact [10] [20] = NaN \<and> cohen_d exact [10] [20] = NaN
   \<and> ttest_ind exact [10] [20] = NaN
   \<and> summary_stats exact scenario_bio scenario_labels
       (request False (py ''All'') (py ''All Ages''))
     = Inr (Output
        [(py ''Disease'', \<lparr> Count = 1, Mean = Fin 10, Median = Fin 10, Std_Dev = NaN,
                             Min_value = Fin 10, Max_value = Fin 10 \<rparr>),
         (py ''No Disease'', \<lparr> Count = 1, Mean = Fin 20, Median = Fin 20, Std_Dev = NaN,
                                Min_value = Fin 20, Max_value = Fin 20 \<rparr>)]
        (Statistical_Test NaN NaN))"
proof -
  have x1: "group_data (summary_cohort scenario_bio scenario_labels
       (request False (py ''All'') (py ''All Ages''))) (py ''Disease'') = [10]"
    by (simp add: example_defs string_defs column_defs filter_defs group_data_def
          disease_status_def)
  have x2: "group_data (summary_cohort scenario_bio scenario_labels
       (request False (py ''All'') (py ''All Ages''))) (py ''No Disease'') = [20]"
    by (simp add: example_defs string_defs column_defs filter_defs group_data_def
          disease_status_def)
  have g: "snd (grouped_stats exact (summary_cohort scenario_bio scenario_labels
       (request False (py ''All'') (py ''All Ages''))))
     = [(py ''Disease'', \<lparr> Count = 1, Mean = Fin 10, Median = Fin 10, Std_Dev = NaN,
                           Min_value = Fin 10, Max_value = Fin 10 \<rparr>),
        (py ''No Disease'', \<lparr> Count = 1, Mean = Fin 20, Median = Fin 20, Std_Dev = NaN,
                              Min_value = Fin 20, Max_value = Fin 20 \<rparr>)]"
    unfolding snd_grouped_stats x1 x2
    by (simp add: make_stats_dict_def mean_def median_def std_def var_ddof1_def
          minimum_def maximum_def exact_def)
  have s: "biomarker_x (request False (py ''All'') (py ''All Ages'')) \<noteq> py ''RIAGENDR''"
    by (simp add: request_def py_def)
  show ?thesis
    using s single_value_group_nan
            [of scenario_bio scenario_labels "request False (py ''All'') (py ''All Ages'')"
                exact]
    unfolding Let_def x1 x2 g by simp
qed

section \<open>The sign of Cohen's d\<close>







section \<open>An empty cohort\<close>

lemma grouped_stats_Nil: "grouped_stats fp [] = (Map.empty, [])"
  by (simp add: grouped_stats_def group_iteration_def group_data_Nil)

lemma gender_filtered_eq:
  "sel \<noteq> py ''RIAGENDR'' \<Longrightarrow>
     gender_filtered (kde_columns sel label) choice merged_data
       = Inr (gender_step choice merged_data)"
  by (simp add: gender_filtered_def select_rows_def getitem_def kde_columns_count
        gender_step_def)

text \<open>
  C7, as the code has it, for a selected biomarker that is a measurement. When the
  disease and gender filters of \<^verbatim>\<open>summary_stats\<close> leave no row, it returns the sentence
  of line 233; before that the loop has skipped both groups and the test section is
  the sentence about insufficient data, so nothing was computed; and it raises for no
  request. \<^verbatim>\<open>kde_plot\<close> raises for no age choice that the select box offers. When no row
  is left after its age step it draws the text of line 134. When rows are left there
  and the disease and gender filters leave none, it produces no sentence: it hands two
  empty series to the density estimate.
\<close>

theorem empty_cohort_outcomes:
  "(biomarker_x inp \<noteq> py ''RIAGENDR'' \<longrightarrow>
      (\<exists>s. summary_stats fp bio lab inp = Inr s)
      \<and> (summary_cohort bio lab inp = [] \<longrightarrow>
           summary_stats fp bio lab inp = Inr No_data
           \<and> grouped_stats fp (summary_cohort bio lab inp) = (Map.empty, [])
           \<and> statistical_test fp (fst (grouped_stats fp (summary_cohort bio lab inp)))
               = Insufficient_data))
   \<and> (biomarker_x inp \<noteq> py ''RIAGENDR'' \<and> biomarker_x inp \<noteq> py ''RIDAGEYR''
        \<and> age_group_filter inp \<in> set age_group_choices \<longrightarrow>
      (\<exists>aged. age_group_step (age_group_filter inp)
                 (merge bio lab (biomarker_x inp) (heart_disease_label inp)) = Inr aged
         \<and> (\<exists>fig. kde_plot bio lab inp = Inr fig)
         \<and> (aged = [] \<longrightarrow>
              kde_plot bio lab inp
                = Inr (Message (py ''No data available for selected age group.'')))
         \<and> (aged \<noteq> [] \<and> gender_step (gender_filter inp)
               (heart_disease_step (filter_heart_disease inp) aged) = [] \<longrightarrow>
              kde_plot bio lab inp
                = Inr (Density_plot [(py ''Disease'', [[]]), (py ''No Disease'', [[]])]))))"
proof (intro conjI impI)
  assume sel: "biomarker_x inp \<noteq> py ''RIAGENDR''"
  show "\<exists>s. summary_stats fp bio lab inp = Inr s"
    by (simp add: summary_stats_eq [OF sel])
  assume e: "summary_cohort bio lab inp = []"
  show "summary_stats fp bio lab inp = Inr No_data"
    by (simp add: summary_stats_eq [OF sel] e)
  show "grouped_stats fp (summary_cohort bio lab inp) = (Map.empty, [])"
    by (simp add: e grouped_stats_Nil)
  show "statistical_test fp (fst (grouped_stats fp (summary_cohort bio lab inp)))
          = Insufficient_data"
    by (simp add: e grouped_stats_Nil statistical_test_def)
next
  let ?cols = "kde_columns (biomarker_x inp) (heart_disease_label inp)"
  let ?merged = "merge bio lab (biomarker_x inp) (heart_disease_label inp)"
  assume h: "biomarker_x inp \<noteq> py ''RIAGENDR'' \<and> biomarker_x inp \<noteq> py ''RIDAGEYR''
        \<and> age_group_filter inp \<in> set age_group_choices"
  then obtain aged where aged: "age_group_step (age_group_filter inp) ?merged = Inr aged"
    using age_group_step_choices by blast
  have checked: "age_group_filtered ?cols (age_group_filter inp) ?merged = Inr aged"
    using h aged by (simp add: age_group_filtered_eq)
  have n: "getitem ?cols Biomarker_X_column = Inr 1"
    using h by (simp add: getitem_def kde_columns_count)
  have kde: "kde_plot bio lab inp =
      (if aged = [] then Inr (Message (py ''No data available for selected age group.''))
       else Inr (Density_plot
         (map (\<lambda>(condition, label).
                 (label, [map Biomarker_X (filter (\<lambda>r. Heart_Disease r = condition)
                    (gender_step (gender_filter inp)
                       (heart_disease_step (filter_heart_disease inp) aged)))]))
              [(1, py ''Disease''), (0, py ''No Disease'')])))"
    using h n by (simp add: kde_plot_after_age_step [OF checked] gender_filtered_eq)
  have fig: "\<exists>fig. kde_plot bio lab inp = Inr fig"
    by (simp add: kde)
  have msg: "kde_plot bio lab inp
      = Inr (Message (py ''No data available for selected age group.''))" if "aged = []"
    using that by (simp add: kde)
  have empty: "kde_plot bio lab inp
      = Inr (Density_plot [(py ''Disease'', [[]]), (py ''No Disease'', [[]])])"
    if "aged \<noteq> [] \<and> gender_step (gender_filter inp)
          (heart_disease_step (filter_heart_disease inp) aged) = []"
    using that by (simp add: kde)
  show "\<exists>aged. age_group_step (age_group_filter inp) ?merged = Inr aged
         \<and> (\<exists>fig. kde_plot bio lab inp = Inr fig)
         \<and> (aged = [] \<longrightarrow>
              kde_plot bio lab inp
                = Inr (Message (py ''No data available for selected age group.'')))
         \<and> (aged \<noteq> [] \<and> gender_step (gender_filter inp)
               (heart_disease_step (filter_heart_disease inp) aged) = [] \<longrightarrow>
              kde_plot bio lab inp
                = Inr (Density_plot [(py ''Disease'', [[]]), (py ''No Disease'', [[]])]))"
    using aged fig msg empty by blast
qed

text \<open>
  Both subjects with the disease of the paired tables are men: the disease filter with
  "Female" leaves no row. \<^verbatim>\<open>summary_stats\<close> returns its sentence, \<^verbatim>\<open>kde_plot\<close> two empty
  series; with the decade 70-80, where nobody is, \<^verbatim>\<open>kde_plot\<close> draws its text.
\<close>

theorem empty_cohort_outcomes_witness:
  "summary_cohort paired_bio paired_labels (request True (py ''Female'') (py ''All Ages'')) = []
   \<and> summary_stats exact paired_bio paired_labels
       (request True (py ''Female'') (py ''All Ages'')) = Inr No_data
   \<and> kde_plot paired_bio paired_labels (request True (py ''Female'') (py ''All Ages''))
       = Inr (Density_plot [(py ''Disease'', [[]]), (py ''No Disease'', [[]])])
   \<and> kde_plot paired_bio paired_labels
         (request True (py ''Female'') (py ''70'' @ [en_dash] @ py ''80''))
       = Inr (Message (py ''No data available for selected age group.''))"
proof -
  let ?all = "request True (py ''Female'') (py ''All Ages'')"
  let ?old = "request True (py ''Female'') (py ''70'' @ [en_dash] @ py ''80'')"
  have c: "summary_cohort paired_bio paired_labels ?all = []"
    by (simp add: example_defs string_defs column_defs filter_defs)
  have s: "biomarker_x ?all \<noteq> py ''RIAGENDR''" "biomarker_x ?all \<noteq> py ''RIDAGEYR''"
      "biomarker_x ?old \<noteq> py ''RIAGENDR''" "biomarker_x ?old \<noteq> py ''RIDAGEYR''"
    by (simp_all add: request_def py_def)
  have v1: "age_group_filter ?all \<in> set age_group_choices"
    by (simp add: request_def age_group_choices_def)
  have v2: "age_group_filter ?old \<in> set age_group_choices"
    by (simp add: request_def age_group_choices_def)
  have a1: "age_group_step (age_group_filter ?all)
              (merge paired_bio paired_labels (biomarker_x ?all) (heart_disease_label ?all))
            = Inr [joined 1 (Some 1) 1 45 1, joined 2 (Some 3) 1 52 1,
                   joined 3 (Some 5) 2 61 0, joined 4 (Some 7) 2 33 0]"
    by (simp add: example_defs string_defs column_defs filter_defs)
  have a2: "age_group_step (age_group_filter ?old)
              (merge paired_bio paired_labels (biomarker_x ?old) (heart_disease_label ?old))
            = Inr []"
    by (simp add: example_defs string_defs column_defs filter_defs)
  have f: "gender_step (gender_filter ?all) (heart_disease_step (filter_heart_disease ?all)
              [joined 1 (Some 1) 1 45 1, joined 2 (Some 3) 1 52 1,
               joined 3 (Some 5) 2 61 0, joined 4 (Some 7) 2 33 0]) = []"
    by (simp add: example_defs string_defs filter_defs)
  show ?thesis
    using c s v1 v2 f
      empty_cohort_outcomes [of ?all exact paired_bio paired_labels]
      empty_cohort_outcomes [of ?old exact paired_bio paired_labels]
    unfolding a1 a2 by auto
qed

text \<open>
  The claim as the specification words it promises an explicit "no data" result,
  without an exception, for every request whose filters leave no record. On the paired
  tables the disease filter with "Female" leaves no record, and \<^verbatim>\<open>kde_plot\<close> answers
  with a density plot of two empty series, not with a sentence. For the gender column
  as the biomarker and a label table without rows the join is empty, and
  \<^verbatim>\<open>summary_stats\<close> raises the \<^verbatim>\<open>KeyError\<close> of line 197.
\<close>

theorem empty_cohort_counterexample:
  "gender_step (py ''Female'')
       (heart_disease_step True
          (merge paired_bio paired_labels (py ''Glucose'') (py ''CoronaryHeartDisease''))) = []
   \<and> kde_plot paired_bio paired_labels (request True (py ''Female'') (py ''All Ages''))
       = Inr (Density_plot [(py ''Disease'', [[]]), (py ''No Disease'', [[]])])
   \<and> merge scenario_bio [] (py ''RIAGENDR'') (py ''CoronaryHeartDisease'') = []
   \<and> summary_stats exact scenario_bio [] gender_request
       = Inl (KeyError (py ''Biomarker X''))"
proof (intro conjI)
  show "gender_step (py ''Female'')
       (heart_disease_step True
          (merge paired_bio paired_labels (py ''Glucose'') (py ''CoronaryHeartDisease''))) = []"
    by (simp add: example_defs string_defs column_defs filter_defs)
  show "kde_plot paired_bio paired_labels (request True (py ''Female'') (py ''All Ages''))
       = Inr (Density_plot [(py ''Disease'', [[]]), (py ''No Disease'', [[]])])"
    by (simp add: kde_plot_def example_defs string_defs column_defs filter_defs)
  show "merge scenario_bio [] (py ''RIAGENDR'') (py ''CoronaryHeartDisease'') = []"
    by (simp add: example_defs merge_def)
  show "summary_stats exact scenario_bio [] gender_request
       = Inl (KeyError (py ''Biomarker X''))"
    by (simp add: example_defs string_defs column_defs filter_defs stats_defs)
qed

section \<open>The age filter and the summary\<close>

lemma summary_stats_age_group_filter:
  "summary_stats fp bio lab (inp\<lparr>age_group_filter := choice\<rparr>) = summary_stats fp bio lab inp"
  by (simp add: summary_stats_def)

text \<open>
  C1 asks for one cohort behind the density plot and the summary. \<^verbatim>\<open>summary_stats\<close>
  never reads the age choice (the lemma above), although its own sentence of line 233
  names the age group among the selected filters. On Scenario A with the decade 20-30,
  which holds none of the three subjects, \<^verbatim>\<open>kde_plot\<close> finds no row after its age step
  and draws its text, while \<^verbatim>\<open>summary_stats\<close> keeps all three rows and reports both
  groups and a test.
\<close>

theorem summary_stats_without_age_filter:
  "age_group_step (py ''20'' @ [en_dash] @ py ''30'')
       (merge scenario_bio scenario_labels (py ''Glucose'') (py ''CoronaryHeartDisease''))
     = Inr []
   \<and> kde_plot scenario_bio scenario_labels
       (request False (py ''All'') (py ''20'' @ [en_dash] @ py ''30''))
     = Inr (Message (py ''No data available for selected age group.''))
   \<and> summary_cohort scenario_bio scenario_labels
       (request False (py ''All'') (py ''20'' @ [en_dash] @ py ''30''))
     = [joined 1 (Some 10) 1 45 1, joined 2 (Some 20) 1 52 0, joined 3 None 2 61 1]
   \<and> summary_stats exact scenario_bio scenario_labels
       (request False (py ''All'') (py ''20'' @ [en_dash] @ py ''30''))
     = Inr (Output
        [(py ''Disease'', \<lparr> Count = 1, Mean = Fin 10, Median = Fin 10, Std_Dev = NaN,
                             Min_value = Fin 10, Max_value = Fin 10 \<rparr>),
         (py ''No Disease'', \<lparr> Count = 1, Mean = Fin 20, Median = Fin 20, Std_Dev = NaN,
                                Min_value = Fin 20, Max_value = Fin 20 \<rparr>)]
        (Statistical_Test NaN NaN))"
proof (intro conjI)
  show "age_group_step (py ''20'' @ [en_dash] @ py ''30'')
       (merge scenario_bio scenario_labels (py ''Glucose'') (py ''CoronaryHeartDisease''))
     = Inr []"
    by (simp add: example_defs string_defs column_defs filter_defs)
  show "kde_plot scenario_bio scenario_labels
       (request False (py ''All'') (py ''20'' @ [en_dash] @ py ''30''))
     = Inr (Message (py ''No data available for selected age group.''))"
    by (simp add: kde_plot_def example_defs string_defs column_defs filter_defs)
  show "summary_cohort scenario_bio scenario_labels
       (request False (py ''All'') (py ''20'' @ [en_dash] @ py ''30''))
     = [joined 1 (Some 10) 1 45 1, joined 2 (Some 20) 1 52 0, joined 3 None 2 61 1]"
    by (simp add: example_defs string_defs column_defs filter_defs)
  show "summary_stats exact scenario_bio scenario_labels
       (request False (py ''All'') (py ''20'' @ [en_dash] @ py ''30''))
     = Inr (Output
        [(py ''Disease'', \<lparr> Count = 1, Mean = Fin 10, Median = Fin 10, Std_Dev = NaN,
                             Min_value = Fin 10, Max_value = Fin 10 \<rparr>),
         (py ''No Disease'', \<lparr> Count = 1, Mean = Fin 20, Median = Fin 20, Std_Dev = NaN,
                                Min_value = Fin 20, Max_value = Fin 20 \<rparr>)]
        (Statistical_Test NaN NaN))"
    by (simp add: example_defs string_defs column_defs filter_defs stats_defs)
qed

end
